theory Spec2Isabelle
  imports Complex_Main
begin

section \<open>The plotting routine of examples/advanced/dxl\_reacher.py\<close>

text \<open>
  The development embeds \<^verbatim>\<open>plot_dxl_reacher\<close>, the shutdown sequence of
  \<^verbatim>\<open>main\<close> and the command-line block of the script. Episode lengths and
  step counts are Python and numpy integers, modelled as \<open>int\<close> (no value in reach of the
  script leaves 64 bits). Episodic returns are floating-point numbers; they are modelled as
  \<open>real\<close>, so rounding is not part of the model: selection of a window, truthiness
  (a value different from zero) and the order of the operations are.
\<close>

subsection \<open>Exceptions\<close>

datatype py_error = Index_error | Value_error | Type_error

subsection \<open>The numpy operations the routine calls\<close>

text \<open>\<^verbatim>\<open>np.arange(start, stop, step)\<close> for a positive step: the values
  \<open>start + k * step\<close> below \<open>stop\<close>.\<close>

definition np_arange :: "int \<Rightarrow> int \<Rightarrow> int \<Rightarrow> int list" where
  "np_arange start stop step =
     map (\<lambda>k. start + int k * step) [0..<nat ((stop - start + step - 1) div step)]"

fun cumsum_from :: "int \<Rightarrow> int list \<Rightarrow> int list" where
  "cumsum_from acc [] = []"
| "cumsum_from acc (x # xs) = (acc + x) # cumsum_from (acc + x) xs"

definition np_cumsum :: "int list \<Rightarrow> int list" where
  "np_cumsum xs = cumsum_from 0 xs"

text \<open>\<^verbatim>\<open>a[-1]\<close>: the last element, IndexError on an empty array.\<close>

definition np_last :: "int list \<Rightarrow> py_error + int" where
  "np_last xs = (if xs = [] then Inl Index_error else Inr (last xs))"

text \<open>\<^verbatim>\<open>a[mask]\<close> with a boolean mask: the elements where the mask is true;
  IndexError when the mask and the array differ in length.\<close>

definition bool_index :: "'a list \<Rightarrow> bool list \<Rightarrow> py_error + 'a list" where
  "bool_index xs msk =
     (if length msk \<noteq> length xs then Inl Index_error
      else Inr (map fst (filter snd (zip xs msk))))"

text \<open>\<^verbatim>\<open>a.any()\<close>: some element is truthy, that is, different from zero.\<close>

definition np_any :: "real list \<Rightarrow> bool" where
  "np_any xs = list_ex (\<lambda>x. x \<noteq> 0) xs"

definition np_mean :: "real list \<Rightarrow> real" where
  "np_mean xs = sum_list xs / real (length xs)"

text \<open>\<^verbatim>\<open>np.max\<close> and \<^verbatim>\<open>np.min\<close> raise ValueError on an empty
  sequence.\<close>

definition np_max :: "real list \<Rightarrow> py_error + real" where
  "np_max xs = (case xs of [] \<Rightarrow> Inl Value_error | y # ys \<Rightarrow> Inr (fold max ys y))"

definition np_min :: "real list \<Rightarrow> py_error + real" where
  "np_min xs = (case xs of [] \<Rightarrow> Inl Value_error | y # ys \<Rightarrow> Inr (fold min ys y))"

subsection \<open>The shared record and the figure\<close>

record shared_record =
  write_lock :: bool
  episodic_returns :: "real list"
  episodic_lengths :: "int list"

text \<open>The fields of the environment that an iteration reads.\<close>

record env_reading =
  target_pos :: real
  present_pos_last :: real
  reward :: real
  angle_low :: real
  angle_high :: real

text \<open>The figure as the routine's local state: the two markers and the limits of the
  first subplot, the learning-curve line \<open>hl11\<close> and the limits of the second subplot,
  and the two counters.\<close>

record plot_state =
  hl1_xdata :: "real list"
  hl1_ydata :: "real list"
  hl2_xdata :: "real list"
  hl2_ydata :: "real list"
  ax1_xlim :: "real \<times> real"
  ax1_ylim :: "real \<times> real"
  ax1_title :: "string \<times> real"
  hl11_xdata :: "int list"
  hl11_ydata :: "real list"
  ax2_xlim :: "int \<times> int"
  ax2_ylim :: "real \<times> real"
  old_size :: nat
  count :: nat

subsection \<open>The learning curve\<close>

definition window_size_steps :: int where
  "window_size_steps = 5000"

definition x_tick :: int where
  "x_tick = 1000"

definition ep_lens_of :: "int \<Rightarrow> shared_record \<Rightarrow> int list" where
  "ep_lens_of batch_size copied_returns =
     (if episodic_lengths copied_returns \<noteq> [] then episodic_lengths copied_returns
      else map (\<lambda>k. batch_size * k)
             (np_arange 0 (int (length (episodic_returns copied_returns))) 1))"

definition steps_show_of :: "int \<Rightarrow> int list" where
  "steps_show_of last_cum = np_arange x_tick (last_cum + 1) x_tick"

text \<open>The mask of iteration \<open>i\<close>: the product of the two comparisons.\<close>

definition window_mask :: "int list \<Rightarrow> nat \<Rightarrow> bool list" where
  "window_mask cum_episode_lengths i =
     map (\<lambda>c. max 0 (x_tick * (int i + 1) - window_size_steps) < c \<and> c < x_tick * (int i + 1))
       cum_episode_lengths"

definition rets_in_window :: "real list \<Rightarrow> int list \<Rightarrow> nat \<Rightarrow> py_error + real list" where
  "rets_in_window returns cum_episode_lengths i =
     bool_index returns (window_mask cum_episode_lengths i)"

text \<open>The loop over \<^verbatim>\<open>range(len(steps_show))\<close>, with the list \<open>rets\<close> it
  appends to.\<close>

fun rets_loop :: "real list \<Rightarrow> int list \<Rightarrow> nat list \<Rightarrow> real list \<Rightarrow> py_error + real list" where
  "rets_loop returns cum [] rets = Inr rets"
| "rets_loop returns cum (i # rest) rets =
     (case rets_in_window returns cum i of
        Inl e \<Rightarrow> Inl e
      | Inr w \<Rightarrow> rets_loop returns cum rest (if np_any w then rets @ [np_mean w] else rets))"

definition plot_learning_curve :: "int \<Rightarrow> shared_record \<Rightarrow> plot_state \<Rightarrow> py_error + plot_state" where
  "plot_learning_curve batch_size copied_returns st =
     (let returns = episodic_returns copied_returns;
          st1 = st\<lparr>old_size := length returns\<rparr>;
          cum_episode_lengths = np_cumsum (ep_lens_of batch_size copied_returns)
      in case np_last cum_episode_lengths of
           Inl e \<Rightarrow> Inl e
         | Inr last_cum \<Rightarrow>
             if x_tick \<le> last_cum then
               (case rets_loop returns cum_episode_lengths
                       [0..<length (steps_show_of last_cum)] [] of
                  Inl e \<Rightarrow> Inl e
                | Inr rets \<Rightarrow>
                    (let st2 = st1\<lparr>hl11_xdata :=
                                     map (\<lambda>k. k * x_tick) (np_arange 1 (int (length rets) + 1) 1),
                                   ax2_xlim := (x_tick, int (length rets) * x_tick),
                                   hl11_ydata := rets\<rparr>
                     in case np_max rets of
                          Inl e \<Rightarrow> Inl e
                        | Inr mx \<Rightarrow>
                            (case np_min rets of
                               Inl e \<Rightarrow> Inl e
                             | Inr mn \<Rightarrow>
                                 (let buffer = \<bar>mx - mn\<bar> * (5 / 100)
                                  in Inr (st2\<lparr>ax2_ylim := (mn - buffer, mx + buffer)\<rparr>)))))
             else Inr st1)"

subsection \<open>One iteration of the plotting loop\<close>

text \<open>The first subplot: both markers, the limits (set, then reversed) and the title.\<close>

definition draw_env :: "env_reading \<Rightarrow> plot_state \<Rightarrow> plot_state" where
  "draw_env env st =
     (let st1 = st\<lparr>hl1_ydata := [1], hl1_xdata := [target_pos env],
                     hl2_ydata := [1], hl2_xdata := [present_pos_last env],
                     ax1_ylim := (0, 2), ax1_xlim := (angle_low env, angle_high env),
                     ax1_title := (''Current Reward: '', reward env)\<rparr>;
          st2 = st1\<lparr>ax1_xlim := prod.swap (ax1_xlim st1)\<rparr>
      in st2\<lparr>ax1_ylim := prod.swap (ax1_ylim st2)\<rparr>)"

text \<open>The test that guards the learning curve, on the copy of the shared record.\<close>

definition redraw_due :: "shared_record \<Rightarrow> plot_state \<Rightarrow> bool" where
  "redraw_due copied_returns st =
     (\<not> write_lock copied_returns \<and> old_size st < length (episodic_returns copied_returns))"

text \<open>The body of the loop. \<open>shared_returns\<close> is the shared record as the deep copy
  finds it; the copy is a value, so every later read sees the same record. The sleep and
  the drawing of the canvas that end the body change nothing the routine reads back.\<close>

definition plot_iteration :: "int \<Rightarrow> env_reading \<Rightarrow> shared_record \<Rightarrow> plot_state \<Rightarrow> py_error + plot_state" where
  "plot_iteration batch_size env shared_returns st =
     (let st1 = draw_env env st;
          copied_returns = shared_returns
      in case (if redraw_due copied_returns st1
               then plot_learning_curve batch_size copied_returns st1
               else Inr st1) of
           Inl e \<Rightarrow> Inl e
         | Inr st2 \<Rightarrow> Inr (st2\<lparr>count := count st2 + 1\<rparr>))"

subsection \<open>The loop and the saved image\<close>

record bbox =
  bb_x0 :: real
  bb_y0 :: real
  bb_x1 :: real
  bb_y1 :: real

text \<open>matplotlib's \<^verbatim>\<open>Bbox.expanded(sw, sh)\<close>: the box scaled by \<open>sw\<close> and
  \<open>sh\<close> about its centre.\<close>

definition expanded :: "real \<Rightarrow> real \<Rightarrow> bbox \<Rightarrow> bbox" where
  "expanded sw sh b =
     (let width = bb_x1 b - bb_x0 b;
          height = bb_y1 b - bb_y0 b;
          deltaw = (sw * width - width) / 2;
          deltah = (sh * height - height) / 2
      in \<lparr>bb_x0 = bb_x0 b - deltaw, bb_y0 = bb_y0 b - deltah,
          bb_x1 = bb_x1 b + deltaw, bb_y1 = bb_y1 b + deltah\<rparr>)"

record savefig_call =
  fname :: string
  bbox_inches :: bbox

definition savefig :: "string \<Rightarrow> bbox \<Rightarrow> savefig_call" where
  "savefig tag extent = \<lparr>fname = tag @ ''.png'', bbox_inches = expanded (11 / 10) (11 / 10) extent\<rparr>"

text \<open>What one test of the loop condition and the iteration after it read from the other
  process: the flag, the environment and the shared record.\<close>

record observation =
  plot_running_value :: int
  env_seen :: env_reading
  shared_seen :: shared_record

text \<open>A run of the routine against the observations made so far: it has left the loop and
  saved its images, or an exception has ended the process, or the flag was truthy at every
  test and the loop is still running.\<close>

datatype outcome =
    Exited plot_state "savefig_call list"
  | Raised py_error
  | Still_running plot_state

fun plot_loop :: "string \<Rightarrow> int \<Rightarrow> bbox \<Rightarrow> plot_state \<Rightarrow> observation list \<Rightarrow> outcome" where
  "plot_loop tag batch_size extent st [] = Still_running st"
| "plot_loop tag batch_size extent st (ob # obs) =
     (if plot_running_value ob \<noteq> 0 then
        (case plot_iteration batch_size (env_seen ob) (shared_seen ob) st of
           Inl e \<Rightarrow> Raised e
         | Inr st' \<Rightarrow> plot_loop tag batch_size extent st' obs)
      else Exited st [savefig tag extent])"

text \<open>The figure before the loop: empty lines, matplotlib's default limits, and
  \<open>old_size\<close> read from the shared record.\<close>

definition initial_plot_state :: "shared_record \<Rightarrow> plot_state" where
  "initial_plot_state shared_returns =
     \<lparr>hl1_xdata = [], hl1_ydata = [], hl2_xdata = [], hl2_ydata = [],
      ax1_xlim = (0, 1), ax1_ylim = (0, 1), ax1_title = ([], 0),
      hl11_xdata = [], hl11_ydata = [], ax2_xlim = (0, 1), ax2_ylim = (0, 1),
      old_size = length (episodic_returns shared_returns), count = 0\<rparr>"

text \<open>\<open>extent\<close> is the window extent of the second subplot, in inches, when the loop is
  left.\<close>

definition plot_dxl_reacher :: "string \<Rightarrow> int \<Rightarrow> shared_record \<Rightarrow> bbox \<Rightarrow> observation list \<Rightarrow> outcome" where
  "plot_dxl_reacher tag batch_size shared_returns extent obs =
     plot_loop tag batch_size extent (initial_plot_state shared_returns) obs"

section \<open>The trainer: \<^verbatim>\<open>main\<close>\<close>

text \<open>Values that reach \<^verbatim>\<open>main\<close> from the command line.\<close>

datatype arg_value = Py_none | Py_str string | Py_int int

text \<open>The calls of \<^verbatim>\<open>main\<close> that act on the environment, the plotting
  process, the learner and the clock, in the order they are made.\<close>

datatype event =
    Env_create arg_value arg_value arg_value
  | Env_start
  | Plotter_start string int
  | Learn int
  | Set_plot_running int
  | Sleep int
  | Plotter_join
  | Env_close

record trainer =
  plot_running :: int
  events :: "event list"

definition emit :: "event \<Rightarrow> trainer \<Rightarrow> trainer" where
  "emit e w = w\<lparr>events := events w @ [e]\<rparr>"

definition set_plot_running :: "int \<Rightarrow> trainer \<Rightarrow> trainer" where
  "set_plot_running v w = emit (Set_plot_running v) (w\<lparr>plot_running := v\<rparr>)"

text \<open>\<open>tag\<close> is the string of the clock read on the first line of
  \<^verbatim>\<open>main\<close>. The plotting process gets it with the batch size 2048; the flag
  starts at 1.\<close>

definition main :: "arg_value \<Rightarrow> arg_value \<Rightarrow> arg_value \<Rightarrow> string \<Rightarrow> trainer" where
  "main port idn baud tag =
     (let w1 = emit Env_start \<lparr>plot_running = 1, events = [Env_create port idn baud]\<rparr>;
          w2 = emit (Plotter_start tag 2048) w1;
          w3 = emit (Learn 50000) w2;
          w4 = set_plot_running 0 w3;
          w5 = emit (Sleep 2) w4;
          w6 = emit Plotter_join w5
      in emit Env_close w6)"

section \<open>The command line\<close>




















section \<open>Windows by sample point\<close>

text \<open>The returns whose cumulative episode length lies between the lower end of the
  window, clamped at 0, and the sample point \<open>s\<close>, both ends excluded.\<close>

definition window_of :: "real list \<Rightarrow> int list \<Rightarrow> int \<Rightarrow> real list" where
  "window_of returns cum s =
     map fst (filter (\<lambda>rc. max 0 (s - window_size_steps) < snd rc \<and> snd rc < s) (zip returns cum))"

text \<open>The window in the words of the specification: the returns whose cumulative length
  lies strictly between \<open>s - window\<close> and \<open>s\<close>.\<close>

definition spec_window :: "real list \<Rightarrow> int list \<Rightarrow> int \<Rightarrow> real list" where
  "spec_window returns cum s =
     map fst (filter (\<lambda>rc. s - window_size_steps < snd rc \<and> snd rc < s) (zip returns cum))"

text \<open>The indices of the sample points that contribute an average, in the order of the
  loop.\<close>

definition kept_samples :: "real list \<Rightarrow> int list \<Rightarrow> nat \<Rightarrow> nat list" where
  "kept_samples returns cum n =
     filter (\<lambda>i. np_any (window_of returns cum (x_tick * (int i + 1)))) [0..<n]"

text \<open>What the figure holds of the learning curve: the data of the line \<open>hl11\<close> and the
  limits of the second subplot.\<close>

definition learning_curve_of :: "plot_state \<Rightarrow> int list \<times> real list \<times> (int \<times> int) \<times> (real \<times> real)" where
  "learning_curve_of st = (hl11_xdata st, hl11_ydata st, ax2_xlim st, ax2_ylim st)"

section \<open>Properties of the numpy operations\<close>

lemma np_arange_unit: "np_arange a b 1 = map (\<lambda>k. a + int k) [0..<nat (b - a)]"
  by (simp add: np_arange_def)

lemma steps_show_of_eq:
  "steps_show_of m = map (\<lambda>k. x_tick * (int k + 1)) [0..<nat (m div 1000)]"
  by (simp add: steps_show_of_def np_arange_def x_tick_def algebra_simps)

lemma length_steps_show_of: "length (steps_show_of m) = nat (m div 1000)"
  by (simp add: steps_show_of_eq)

lemma length_cumsum_from: "length (cumsum_from acc xs) = length xs"
  by (induction xs arbitrary: acc) simp_all

lemma length_np_cumsum: "length (np_cumsum xs) = length xs"
  by (simp add: np_cumsum_def length_cumsum_from)

lemma last_cumsum_from:
  "xs \<noteq> [] \<Longrightarrow> last (cumsum_from acc xs) = acc + sum_list xs"
proof (induction xs arbitrary: acc)
  case Nil
  then show ?case by simp
next
  case (Cons x xs)
  show ?case
  proof (cases "xs = []")
    case True
    then show ?thesis by simp
  next
    case False
    from Cons.IH[OF False, of "acc + x"] False show ?thesis
      by (cases xs) simp_all
  qed
qed

lemma cumsum_from_le:
  "\<forall>l\<in>set xs. 0 \<le> l \<Longrightarrow> c \<in> set (cumsum_from acc xs) \<Longrightarrow> c \<le> acc + sum_list xs"
proof (induction xs arbitrary: acc)
  case Nil
  then show ?case by simp
next
  case (Cons x xs)
  have nn: "0 \<le> sum_list xs" using Cons.prems(1) by (simp add: sum_list_nonneg)
  from Cons.prems(2) have "c = acc + x \<or> c \<in> set (cumsum_from (acc + x) xs)" by simp
  then show ?case
  proof
    assume "c = acc + x"
    with nn show ?thesis by simp
  next
    assume "c \<in> set (cumsum_from (acc + x) xs)"
    with Cons.IH[of "acc + x"] Cons.prems(1) have "c \<le> acc + x + sum_list xs" by simp
    then show ?thesis by simp
  qed
qed

lemma np_cumsum_Nil_iff: "np_cumsum xs = [] \<longleftrightarrow> xs = []"
  by (cases xs) (simp_all add: np_cumsum_def)

lemma last_cumsum_Max:
  assumes ne: "xs \<noteq> []" and nonneg: "\<forall>l\<in>set xs. 0 \<le> l"
  shows "last (np_cumsum xs) = Max (set (np_cumsum xs))"
proof -
  have ne': "np_cumsum xs \<noteq> []" using ne by (simp add: np_cumsum_Nil_iff)
  have lst: "last (np_cumsum xs) = sum_list xs"
    using last_cumsum_from[OF ne, of 0] by (simp add: np_cumsum_def)
  have mem: "last (np_cumsum xs) \<in> set (np_cumsum xs)" using ne' by simp
  have ub: "c \<le> last (np_cumsum xs)" if "c \<in> set (np_cumsum xs)" for c
    using cumsum_from_le[OF nonneg, of c 0] that lst by (simp add: np_cumsum_def)
  show ?thesis
    by (rule sym, rule Max_eqI) (use mem ub in simp_all)
qed

lemma bool_index_map:
  assumes len: "length ys = length xs"
  shows "bool_index xs (map P ys) = Inr (map fst (filter (\<lambda>rc. P (snd rc)) (zip xs ys)))"
proof -
  from len have "map fst (filter snd (zip xs (map P ys))) = map fst (filter (\<lambda>rc. P (snd rc)) (zip xs ys))"
    by (induction ys xs rule: list_induct2) simp_all
  with len show ?thesis by (simp add: bool_index_def)
qed

lemma rets_loop_filter:
  "\<forall>i\<in>set js. rets_in_window returns cum i = Inr (W i) \<Longrightarrow>
   rets_loop returns cum js acc = Inr (acc @ map (\<lambda>i. np_mean (W i)) (filter (\<lambda>i. np_any (W i)) js))"
  by (induction js arbitrary: acc) simp_all

section \<open>The end-to-end scenario\<close>

text \<open>
  Claim C2. For the returns \<open>[1.0, 2.0, 3.0]\<close> with the lengths \<open>[1000, 1000, 1000]\<close>
  the cumulative lengths are \<open>[1000, 2000, 3000]\<close> and the sample axis is
  \<open>[1000, 2000, 3000]\<close>. The window of sample 1000 is empty and the point is skipped,
  the window of sample 2000 holds the return at 1000 and averages to 1, and the window of
  sample 3000 holds the returns at 1000 and 2000 and averages to 1.5. The line the redraw
  leaves in the figure has these two averages as its y data.
\<close>

theorem scenario_three_episodes:
  "np_cumsum (ep_lens_of batch_size
      \<lparr>write_lock = False, episodic_returns = [1, 2, 3], episodic_lengths = [1000, 1000, 1000]\<rparr>)
     = [1000, 2000, 3000]
   \<and> steps_show_of 3000 = [1000, 2000, 3000]
   \<and> rets_in_window [1, 2, 3] [1000, 2000, 3000] 0 = Inr []
   \<and> rets_in_window [1, 2, 3] [1000, 2000, 3000] 1 = Inr [1]
   \<and> rets_in_window [1, 2, 3] [1000, 2000, 3000] 2 = Inr [1, 2]
   \<and> np_mean [1] = 1 \<and> np_mean [1, 2] = 3 / 2
   \<and> rets_loop [1, 2, 3] [1000, 2000, 3000] [0..<length (steps_show_of 3000)] [] = Inr [1, 3 / 2]
   \<and> plot_learning_curve batch_size
        \<lparr>write_lock = False, episodic_returns = [1, 2, 3], episodic_lengths = [1000, 1000, 1000]\<rparr> st
      = Inr (st\<lparr>old_size := 3, hl11_xdata := [1000, 2000], ax2_xlim := (1000, 2000),
                 hl11_ydata := [1, 3 / 2], ax2_ylim := (39 / 40, 61 / 40)\<rparr>)"
proof -
  have cum: "np_cumsum (ep_lens_of batch_size
      \<lparr>write_lock = False, episodic_returns = [1, 2, 3], episodic_lengths = [1000, 1000, 1000]\<rparr>)
     = [1000, 2000, 3000]"
    by (simp add: ep_lens_of_def np_cumsum_def)
  have steps: "steps_show_of 3000 = [1000, 2000, 3000]"
    by code_simp
  have w0: "rets_in_window [1, 2, 3] [1000, 2000, 3000] 0 = Inr []"
    by (simp add: rets_in_window_def window_mask_def bool_index_def x_tick_def window_size_steps_def)
  have w1: "rets_in_window [1, 2, 3] [1000, 2000, 3000] 1 = Inr [1]"
    by (simp add: rets_in_window_def window_mask_def bool_index_def x_tick_def window_size_steps_def)
  have w2: "rets_in_window [1, 2, 3] [1000, 2000, 3000] 2 = Inr [1, 2]"
    by (simp add: rets_in_window_def window_mask_def bool_index_def x_tick_def window_size_steps_def)
  have m1: "np_mean [1] = 1" and m2: "np_mean [1, 2] = 3 / 2"
    by (simp_all add: np_mean_def)
  have idx: "[0..<length (steps_show_of 3000)] = [0, 1, 2]"
    by (simp add: steps upt_rec)
  have loop: "rets_loop [1, 2, 3] [1000, 2000, 3000] [0..<length (steps_show_of 3000)] [] = Inr [1, 3 / 2]"
    unfolding idx using w0 w1 w2 m1 m2 by (simp add: np_any_def One_nat_def[symmetric] del: One_nat_def)
  have xs: "map (\<lambda>k. k * x_tick) (np_arange 1 (int (length [1, 3 / 2 :: real]) + 1) 1) = [1000, 2000]"
    by (simp add: np_arange_def x_tick_def upt_rec)
  have curve: "plot_learning_curve batch_size
        \<lparr>write_lock = False, episodic_returns = [1, 2, 3], episodic_lengths = [1000, 1000, 1000]\<rparr> st
      = Inr (st\<lparr>old_size := 3, hl11_xdata := [1000, 2000], ax2_xlim := (1000, 2000),
                 hl11_ydata := [1, 3 / 2], ax2_ylim := (39 / 40, 61 / 40)\<rparr>)"
    unfolding plot_learning_curve_def Let_def cum
    using loop xs by (simp add: np_last_def np_max_def np_min_def x_tick_def)
  from cum steps w0 w1 w2 m1 m2 loop curve show ?thesis by blast
qed

section \<open>The sample axis and the fallback step sequence\<close>

lemma steps_show_of_set:
  "set (steps_show_of m) = {s. 1000 dvd s \<and> 1000 \<le> s \<and> s \<le> m div 1000 * 1000}"
proof (rule set_eqI, rule iffI)
  fix s assume "s \<in> set (steps_show_of m)"
  then obtain k where k: "k < nat (m div 1000)" and s: "s = 1000 * (int k + 1)"
    by (auto simp: steps_show_of_eq x_tick_def)
  from k have "int k + 1 \<le> m div 1000" by linarith
  with s show "s \<in> {s. 1000 dvd s \<and> 1000 \<le> s \<and> s \<le> m div 1000 * 1000}" by simp
next
  fix s assume "s \<in> {s. 1000 dvd s \<and> 1000 \<le> s \<and> s \<le> m div 1000 * 1000}"
  then have d: "1000 dvd s" and lo: "1000 \<le> s" and hi: "s \<le> m div 1000 * 1000" by simp_all
  from d obtain j where j: "s = 1000 * j" by (auto elim: dvdE)
  from lo j have j1: "1 \<le> j" by simp
  from hi j have j2: "j \<le> m div 1000" by simp
  have "nat (j - 1) < nat (m div 1000)" using j1 j2 by linarith
  moreover have "s = x_tick * (int (nat (j - 1)) + 1)" using j j1 by (simp add: x_tick_def)
  ultimately show "s \<in> set (steps_show_of m)"
    unfolding steps_show_of_eq by (auto simp: image_iff intro!: bexI[of _ "nat (j - 1)"])
qed

lemma steps_show_of_from_one:
  "steps_show_of m = map (\<lambda>k. 1000 * int k) [1..<Suc (nat (m div 1000))]"
proof -
  have "[1..<Suc (nat (m div 1000))] = map Suc [0..<nat (m div 1000)]"
    by (simp add: map_Suc_upt)
  then show ?thesis by (simp add: steps_show_of_eq x_tick_def o_def algebra_simps)
qed


text \<open>
  Claim C3. With the stride 1000, the sample axis made from the cumulative episode lengths
  is the list of the consecutive multiples of 1000 from 1000 up to
  \<open>floor (m / 1000) * 1000\<close>, where \<open>m\<close> is the last cumulative length; for episode
  lengths that are not negative the last cumulative length is the largest one.
\<close>

theorem sample_axis_multiples:
  assumes "ep_lens \<noteq> []" and "\<forall>l\<in>set ep_lens. 0 \<le> l"
  shows "\<exists>last_cum. np_last (np_cumsum ep_lens) = Inr last_cum
      \<and> last_cum = Max (set (np_cumsum ep_lens))
      \<and> steps_show_of last_cum = map (\<lambda>k. 1000 * int k) [1..<Suc (nat (last_cum div 1000))]
      \<and> set (steps_show_of last_cum) = {s. 1000 dvd s \<and> 1000 \<le> s \<and> s \<le> last_cum div 1000 * 1000}"
proof -
  have "np_last (np_cumsum ep_lens) = Inr (last (np_cumsum ep_lens))"
    using assms(1) by (simp add: np_last_def np_cumsum_Nil_iff)
  moreover have "last (np_cumsum ep_lens) = Max (set (np_cumsum ep_lens))"
    using assms by (rule last_cumsum_Max)
  ultimately show ?thesis
    using steps_show_of_from_one[of "last (np_cumsum ep_lens)"]
      steps_show_of_set[of "last (np_cumsum ep_lens)"] by simp
qed

theorem sample_axis_multiples_witness:
  "np_last (np_cumsum [1000, 1500, 1000]) = Inr 3500
   \<and> Max (set (np_cumsum [1000, 1500, 1000])) = 3500
   \<and> steps_show_of 3500 = [1000, 2000, 3000]
   \<and> set (steps_show_of 3500) = {s. 1000 dvd s \<and> 1000 \<le> s \<and> s \<le> 3000}"
proof -
  have ne: "[1000, 1500, 1000 :: int] \<noteq> []" by simp
  have nn: "\<forall>l\<in>set [1000, 1500, 1000 :: int]. 0 \<le> l" by simp
  from sample_axis_multiples[OF ne nn] obtain lc where
    a: "np_last (np_cumsum [1000, 1500, 1000]) = Inr lc" and
    b: "lc = Max (set (np_cumsum [1000, 1500, 1000]))" and
    c: "steps_show_of lc = map (\<lambda>k. 1000 * int k) [1..<Suc (nat (lc div 1000))]" and
    d: "set (steps_show_of lc) = {s. 1000 dvd s \<and> 1000 \<le> s \<and> s \<le> lc div 1000 * 1000}"
    by (elim exE conjE)
  have l: "np_last (np_cumsum [1000, 1500, 1000]) = Inr 3500"
    by (simp add: np_last_def np_cumsum_def)
  from a l have lc: "lc = 3500" by simp
  have q: "(3500 :: int) div 1000 * 1000 = 3000" by simp
  have r: "map (\<lambda>k. 1000 * int k) [1..<Suc (nat (3500 div 1000))] = [1000, 2000, 3000]"
    by code_simp
  from b lc have b': "Max (set (np_cumsum [1000, 1500, 1000])) = 3500" by simp
  from c have c': "steps_show_of 3500 = [1000, 2000, 3000]" unfolding lc r .
  from d have d': "set (steps_show_of 3500) = {s. 1000 dvd s \<and> 1000 \<le> s \<and> s \<le> 3000}"
    unfolding lc q .
  from l b' c' d' show ?thesis by (intro conjI)
qed

text \<open>
  Claim C4. When the sequence of episodic lengths in the shared record is empty and \<open>n\<close>
  returns are recorded, the step sequence is \<open>batch_size * [0, 1, ..., n - 1]\<close>, and its
  cumulative sum starts at 0.
\<close>

theorem fallback_step_sequence:
  assumes "episodic_lengths copied = []"
  shows "ep_lens_of batch_size copied
           = map (\<lambda>k. batch_size * int k) [0..<length (episodic_returns copied)]
       \<and> (episodic_returns copied \<noteq> [] \<longrightarrow> hd (np_cumsum (ep_lens_of batch_size copied)) = 0)"
proof -
  have eq: "ep_lens_of batch_size copied
           = map (\<lambda>k. batch_size * int k) [0..<length (episodic_returns copied)]"
    using assms by (simp add: ep_lens_of_def np_arange_unit o_def)
  have "hd (np_cumsum (ep_lens_of batch_size copied)) = 0" if "episodic_returns copied \<noteq> []"
  proof -
    from that have "[0..<length (episodic_returns copied)] = 0 # [1..<length (episodic_returns copied)]"
      by (simp add: upt_conv_Cons)
    then show ?thesis unfolding eq by (simp add: np_cumsum_def)
  qed
  with eq show ?thesis by blast
qed

theorem fallback_step_sequence_witness:
  "ep_lens_of 2048 \<lparr>write_lock = False, episodic_returns = [5, 7, 9], episodic_lengths = []\<rparr>
     = [0, 2048, 4096]
   \<and> hd (np_cumsum (ep_lens_of 2048
        \<lparr>write_lock = False, episodic_returns = [5, 7, 9], episodic_lengths = []\<rparr>)) = 0"
  using fallback_step_sequence[of "\<lparr>write_lock = False, episodic_returns = [5, 7, 9], episodic_lengths = []\<rparr>" 2048]
  by (simp add: upt_rec np_cumsum_def)

section \<open>The window of a sample point\<close>

lemma rets_in_window_eq:
  "length cum = length returns \<Longrightarrow>
   rets_in_window returns cum i = Inr (window_of returns cum (x_tick * (int i + 1)))"
  by (simp add: rets_in_window_def window_mask_def window_of_def bool_index_map)

lemma steps_show_of_nth:
  "i < length (steps_show_of m) \<Longrightarrow> steps_show_of m ! i = x_tick * (int i + 1)"
  by (simp add: steps_show_of_eq)

lemma steps_show_of_map:
  "map f (steps_show_of m) = map (\<lambda>i. f (x_tick * (int i + 1))) [0..<length (steps_show_of m)]"
  by (simp add: steps_show_of_eq o_def)

lemma np_any_nonempty: "np_any w \<Longrightarrow> w \<noteq> []"
  by (auto simp: np_any_def)

lemma rets_loop_windows:
  assumes "length cum = length returns"
  shows "rets_loop returns cum [0..<n] [] =
     Inr (map (\<lambda>i. np_mean (window_of returns cum (x_tick * (int i + 1)))) (kept_samples returns cum n))"
  using rets_loop_filter[of "[0..<n]" returns cum "\<lambda>i. window_of returns cum (x_tick * (int i + 1))" "[]"]
    rets_in_window_eq[OF assms]
  by (simp add: kept_samples_def)

lemma window_of_positive:
  assumes "\<forall>c\<in>set cum. 0 < c"
  shows "window_of returns cum s = spec_window returns cum s"
proof -
  have "filter (\<lambda>rc. max 0 (s - window_size_steps) < snd rc \<and> snd rc < s) (zip returns cum)
      = filter (\<lambda>rc. s - window_size_steps < snd rc \<and> snd rc < s) (zip returns cum)"
  proof (rule filter_cong[OF refl])
    fix rc assume "rc \<in> set (zip returns cum)"
    then have "(fst rc, snd rc) \<in> set (zip returns cum)" by simp
    then have "snd rc \<in> set cum" by (rule set_zip_rightD)
    with assms have "0 < snd rc" by blast
    then show "(max 0 (s - window_size_steps) < snd rc \<and> snd rc < s)
        = (s - window_size_steps < snd rc \<and> snd rc < s)" by auto
  qed
  then show ?thesis by (simp add: window_of_def spec_window_def)
qed

lemma kept_samples_bound: "i \<in> set (kept_samples returns cum n) \<Longrightarrow> i < n"
  by (simp add: kept_samples_def)

lemma kept_samples_nonempty:
  "i \<in> set (kept_samples returns cum n) \<Longrightarrow> window_of returns cum (x_tick * (int i + 1)) \<noteq> []"
  by (auto simp: kept_samples_def dest: np_any_nonempty)

text \<open>
  Claim C1, as amended. For every sample point \<open>s\<close> of the sample axis, the window the
  loop selects holds exactly the recorded returns whose cumulative episode length \<open>c\<close>
  satisfies \<open>max 0 (s - 5000) < c < s\<close>. When every cumulative length is positive this is
  the set of returns with \<open>s - 5000 < c < s\<close>. The averages the loop collects are the means
  of these windows at the sample points it keeps, in the order of the sample axis, and a
  sample point whose window is empty is never kept: it adds no average.
\<close>

theorem window_selection:
  assumes len: "length cum = length returns"
  shows "(\<forall>i<length (steps_show_of m).
            rets_in_window returns cum i = Inr (window_of returns cum (steps_show_of m ! i)))
       \<and> rets_loop returns cum [0..<length (steps_show_of m)] []
           = Inr (map (\<lambda>i. np_mean (window_of returns cum (steps_show_of m ! i)))
                    (kept_samples returns cum (length (steps_show_of m))))
       \<and> (\<forall>i<length (steps_show_of m).
             window_of returns cum (steps_show_of m ! i) = []
               \<longrightarrow> i \<notin> set (kept_samples returns cum (length (steps_show_of m))))
       \<and> (\<forall>i\<in>set (kept_samples returns cum (length (steps_show_of m))). i < length (steps_show_of m))
       \<and> ((\<forall>c\<in>set cum. 0 < c) \<longrightarrow> (\<forall>s. window_of returns cum s = spec_window returns cum s))"
proof (intro conjI)
  show "\<forall>i<length (steps_show_of m).
            rets_in_window returns cum i = Inr (window_of returns cum (steps_show_of m ! i))"
    using rets_in_window_eq[OF len] by (simp add: steps_show_of_nth)
next
  let ?n = "length (steps_show_of m)"
  have "map (\<lambda>i. np_mean (window_of returns cum (x_tick * (int i + 1)))) (kept_samples returns cum ?n)
      = map (\<lambda>i. np_mean (window_of returns cum (steps_show_of m ! i))) (kept_samples returns cum ?n)"
    by (rule map_cong[OF refl]) (simp add: steps_show_of_nth kept_samples_bound)
  with rets_loop_windows[OF len, of ?n]
  show "rets_loop returns cum [0..<?n] []
           = Inr (map (\<lambda>i. np_mean (window_of returns cum (steps_show_of m ! i)))
                    (kept_samples returns cum ?n))"
    by simp
next
  show "\<forall>i<length (steps_show_of m).
             window_of returns cum (steps_show_of m ! i) = []
               \<longrightarrow> i \<notin> set (kept_samples returns cum (length (steps_show_of m)))"
    using kept_samples_nonempty[of _ returns cum "length (steps_show_of m)"]
    by (auto simp: steps_show_of_nth)
next
  show "\<forall>i\<in>set (kept_samples returns cum (length (steps_show_of m))). i < length (steps_show_of m)"
    using kept_samples_bound by blast
next
  show "(\<forall>c\<in>set cum. 0 < c) \<longrightarrow> (\<forall>s. window_of returns cum s = spec_window returns cum s)"
    using window_of_positive by blast
qed

theorem window_selection_witness:
  "length [1000, 2000, 3000 :: int] = length [1, 2, 3 :: real]
   \<and> steps_show_of 3000 = [1000, 2000, 3000]
   \<and> rets_in_window [1, 2, 3] [1000, 2000, 3000] 0 = Inr []
   \<and> rets_in_window [1, 2, 3] [1000, 2000, 3000] 1 = Inr (window_of [1, 2, 3] [1000, 2000, 3000] 2000)
   \<and> window_of [1, 2, 3] [1000, 2000, 3000] 2000 = [1]
   \<and> kept_samples [1, 2, 3] [1000, 2000, 3000] 3 = [1, 2]
   \<and> 0 \<notin> set (kept_samples [1, 2, 3] [1000, 2000, 3000] 3)
   \<and> rets_loop [1, 2, 3] [1000, 2000, 3000] [0..<3] [] = Inr [1, 3 / 2]
   \<and> window_of [1, 2, 3] [1000, 2000, 3000] 3000 = spec_window [1, 2, 3] [1000, 2000, 3000] 3000"
proof -
  let ?R = "[1, 2, 3 :: real]" and ?C = "[1000, 2000, 3000 :: int]"
  have len: "length ?C = length ?R" by simp
  have steps: "steps_show_of 3000 = [1000, 2000, 3000]" by code_simp
  have n3: "length (steps_show_of 3000) = 3" by (simp add: steps)
  have w1: "window_of ?R ?C 1000 = []" and w2: "window_of ?R ?C 2000 = [1]"
    and w3: "window_of ?R ?C 3000 = [1, 2]"
    by (simp_all add: window_of_def window_size_steps_def)
  have kept: "kept_samples ?R ?C 3 = [1, 2]"
    by (simp add: kept_samples_def upt_rec x_tick_def w1 w2 w3 np_any_def)
  have pos: "\<forall>c\<in>set ?C. 0 < c" by simp
  note ws = window_selection[OF len, of 3000]
  from ws have a: "\<forall>i<length (steps_show_of 3000).
            rets_in_window ?R ?C i = Inr (window_of ?R ?C (steps_show_of 3000 ! i))" by (rule conjunct1)
  from ws have b: "rets_loop ?R ?C [0..<length (steps_show_of 3000)] []
           = Inr (map (\<lambda>i. np_mean (window_of ?R ?C (steps_show_of 3000 ! i)))
                    (kept_samples ?R ?C (length (steps_show_of 3000))))"
    by (elim conjE)
  from ws have c: "\<forall>i<length (steps_show_of 3000).
             window_of ?R ?C (steps_show_of 3000 ! i) = []
               \<longrightarrow> i \<notin> set (kept_samples ?R ?C (length (steps_show_of 3000)))"
    by (elim conjE)
  from ws pos have d: "\<forall>s. window_of ?R ?C s = spec_window ?R ?C s" by (elim conjE) (rule mp)
  from a have a0: "rets_in_window ?R ?C 0 = Inr []" by (simp add: steps w1)
  from a have a1: "rets_in_window ?R ?C 1 = Inr (window_of ?R ?C 2000)" by (simp add: steps)
  have rhs: "map (\<lambda>i. np_mean (window_of ?R ?C (steps_show_of 3000 ! i))) [1, 2] = [1, 3 / 2]"
    by (simp add: steps w2 w3 np_mean_def)
  from b have b': "rets_loop ?R ?C [0..<3] [] = Inr [1, 3 / 2]"
    unfolding n3 kept rhs .
  from c have c': "0 \<notin> set (kept_samples ?R ?C 3)"
    unfolding n3 by (simp add: steps w1)
  from d have d': "window_of ?R ?C 3000 = spec_window ?R ?C 3000" by (rule spec)
  from len steps a0 a1 w2 kept c' b' d' show ?thesis by (intro conjI)
qed

theorem window_selection_counterexample:
  "np_cumsum (ep_lens_of 2048
      \<lparr>write_lock = False, episodic_returns = [1, 2, 3], episodic_lengths = []\<rparr>) = [0, 2048, 6144]
   \<and> steps_show_of 6144 = [1000, 2000, 3000, 4000, 5000, 6000]
   \<and> rets_in_window [1, 2, 3] [0, 2048, 6144] 0 = Inr []
   \<and> spec_window [1, 2, 3] [0, 2048, 6144] 1000 = [1]
   \<and> rets_in_window [1, 2, 3] [0, 2048, 6144] 2 = Inr [2]
   \<and> spec_window [1, 2, 3] [0, 2048, 6144] 3000 = [1, 2]
   \<and> rets_loop [1, 2, 3] [0, 2048, 6144] [0..<length (steps_show_of 6144)] [] = Inr [2, 2, 2, 2]"
proof -
  have cum: "np_cumsum (ep_lens_of 2048
      \<lparr>write_lock = False, episodic_returns = [1, 2, 3], episodic_lengths = []\<rparr>) = [0, 2048, 6144]"
    by (simp add: ep_lens_of_def np_cumsum_def np_arange_def upt_rec)
  have steps: "steps_show_of 6144 = [1000, 2000, 3000, 4000, 5000, 6000]" by code_simp
  have len: "length [0, 2048, 6144 :: int] = length [1, 2, 3 :: real]" by simp
  have w: "window_of [1, 2, 3] [0, 2048, 6144] 1000 = []"
      "window_of [1, 2, 3] [0, 2048, 6144] 2000 = []"
      "window_of [1, 2, 3] [0, 2048, 6144] 3000 = [2]"
      "window_of [1, 2, 3] [0, 2048, 6144] 4000 = [2]"
      "window_of [1, 2, 3] [0, 2048, 6144] 5000 = [2]"
      "window_of [1, 2, 3] [0, 2048, 6144] 6000 = [2]"
    by (simp_all add: window_of_def window_size_steps_def)
  have r0: "rets_in_window [1, 2, 3] [0, 2048, 6144] 0 = Inr []"
    using rets_in_window_eq[OF len, of 0] w by (simp add: x_tick_def)
  have r2: "rets_in_window [1, 2, 3] [0, 2048, 6144] 2 = Inr [2]"
    using rets_in_window_eq[OF len, of 2] w by (simp add: x_tick_def)
  have s0: "spec_window [1, 2, 3] [0, 2048, 6144] 1000 = [1]"
    and s2: "spec_window [1, 2, 3] [0, 2048, 6144] 3000 = [1, 2]"
    by (simp_all add: spec_window_def window_size_steps_def)
  have n6: "length (steps_show_of 6144) = 6" by (simp add: steps)
  have kept: "kept_samples [1, 2, 3] [0, 2048, 6144] 6 = [2, 3, 4, 5]"
    by (simp add: kept_samples_def upt_rec x_tick_def w np_any_def)
  have loop: "rets_loop [1, 2, 3] [0, 2048, 6144] [0..<length (steps_show_of 6144)] [] = Inr [2, 2, 2, 2]"
    unfolding n6 rets_loop_windows[OF len] kept
    by (simp add: x_tick_def w np_mean_def)
  from cum steps r0 s0 r2 s2 loop show ?thesis by (intro conjI)
qed

section \<open>The guard of the learning curve\<close>

lemma old_size_draw_env: "old_size (draw_env env st) = old_size st"
  by (simp add: draw_env_def Let_def)

lemma learning_curve_of_draw_env: "learning_curve_of (draw_env env st) = learning_curve_of st"
  by (simp add: draw_env_def Let_def learning_curve_of_def)

lemma count_draw_env: "count (draw_env env st) = count st"
  by (simp add: draw_env_def Let_def)

lemma redraw_due_draw_env: "redraw_due shared (draw_env env st) = redraw_due shared st"
  by (simp add: redraw_due_def old_size_draw_env)

lemma plot_iteration_not_due:
  "\<not> redraw_due shared st \<Longrightarrow>
   plot_iteration bs env shared st = Inr ((draw_env env st)\<lparr>count := count st + 1\<rparr>)"
  by (simp add: plot_iteration_def Let_def redraw_due_draw_env count_draw_env)

lemma plot_iteration_due:
  "redraw_due shared st \<Longrightarrow>
   plot_iteration bs env shared st =
     (case plot_learning_curve bs shared (draw_env env st) of
        Inl e \<Rightarrow> Inl e
      | Inr st2 \<Rightarrow> Inr (st2\<lparr>count := count st2 + 1\<rparr>))"
  by (simp add: plot_iteration_def Let_def redraw_due_draw_env)

text \<open>
  Claim C6. An iteration works on the copy of the shared record it takes first. When the
  write lock is set in the copy, or the copy has no more episodic returns than
  \<open>old_size\<close>, the iteration returns with the learning-curve data and \<open>old_size\<close>
  as they were. When the lock is clear and the copy has more returns than \<open>old_size\<close>,
  the iteration is the learning-curve block run on the copy. So an iteration that changes
  the learning-curve data found the lock clear and the number of returns above
  \<open>old_size\<close>.
\<close>

theorem redraw_only_when_due:
  "(write_lock shared \<or> length (episodic_returns shared) \<le> old_size st \<longrightarrow>
      (\<exists>st'. plot_iteration bs env shared st = Inr st'
         \<and> learning_curve_of st' = learning_curve_of st \<and> old_size st' = old_size st))
   \<and> (\<not> write_lock shared \<and> old_size st < length (episodic_returns shared) \<longrightarrow>
        plot_iteration bs env shared st =
          (case plot_learning_curve bs shared (draw_env env st) of
             Inl e \<Rightarrow> Inl e
           | Inr st2 \<Rightarrow> Inr (st2\<lparr>count := count st2 + 1\<rparr>)))
   \<and> (\<forall>st'. plot_iteration bs env shared st = Inr st'
          \<and> learning_curve_of st' \<noteq> learning_curve_of st \<longrightarrow>
        \<not> write_lock shared \<and> old_size st < length (episodic_returns shared))"
proof (intro conjI impI allI)
  assume "write_lock shared \<or> length (episodic_returns shared) \<le> old_size st"
  then have nd: "\<not> redraw_due shared st" by (auto simp: redraw_due_def)
  show "\<exists>st'. plot_iteration bs env shared st = Inr st'
         \<and> learning_curve_of st' = learning_curve_of st \<and> old_size st' = old_size st"
    unfolding plot_iteration_not_due[OF nd]
    using learning_curve_of_draw_env[of env st] old_size_draw_env[of env st]
    by (simp add: learning_curve_of_def)
next
  assume "\<not> write_lock shared \<and> old_size st < length (episodic_returns shared)"
  then have "redraw_due shared st" by (simp add: redraw_due_def)
  then show "plot_iteration bs env shared st =
          (case plot_learning_curve bs shared (draw_env env st) of
             Inl e \<Rightarrow> Inl e
           | Inr st2 \<Rightarrow> Inr (st2\<lparr>count := count st2 + 1\<rparr>))"
    by (rule plot_iteration_due)
next
  fix st'
  assume a: "plot_iteration bs env shared st = Inr st' \<and> learning_curve_of st' \<noteq> learning_curve_of st"
  have due: "redraw_due shared st"
  proof (rule ccontr)
    assume nd: "\<not> redraw_due shared st"
    from a have "st' = (draw_env env st)\<lparr>count := count st + 1\<rparr>"
      unfolding plot_iteration_not_due[OF nd] by simp
    then have "learning_curve_of st' = learning_curve_of st"
      using learning_curve_of_draw_env[of env st] by (simp add: learning_curve_of_def)
    with a show False by simp
  qed
  from due show "\<not> write_lock shared" by (simp add: redraw_due_def)
  from due show "old_size st < length (episodic_returns shared)" by (simp add: redraw_due_def)
qed

theorem redraw_only_when_due_witness:
  "write_lock \<lparr>write_lock = True, episodic_returns = [1, 2, 3], episodic_lengths = [1000, 1000, 1000]\<rparr>
   \<and> (\<exists>st'. plot_iteration 2048
              \<lparr>target_pos = 0, present_pos_last = 0, reward = 0, angle_low = - 1, angle_high = 1\<rparr>
              \<lparr>write_lock = True, episodic_returns = [1, 2, 3], episodic_lengths = [1000, 1000, 1000]\<rparr>
              (initial_plot_state \<lparr>write_lock = False, episodic_returns = [], episodic_lengths = []\<rparr>)
            = Inr st'
          \<and> learning_curve_of st'
            = learning_curve_of (initial_plot_state \<lparr>write_lock = False, episodic_returns = [], episodic_lengths = []\<rparr>)
          \<and> old_size st' = 0)
   \<and> old_size (initial_plot_state \<lparr>write_lock = False, episodic_returns = [], episodic_lengths = []\<rparr>)
       < length (episodic_returns
           \<lparr>write_lock = False, episodic_returns = [1, 2, 3], episodic_lengths = [1000, 1000, 1000]\<rparr>)
   \<and> plot_iteration 2048
        \<lparr>target_pos = 0, present_pos_last = 0, reward = 0, angle_low = - 1, angle_high = 1\<rparr>
        \<lparr>write_lock = False, episodic_returns = [1, 2, 3], episodic_lengths = [1000, 1000, 1000]\<rparr>
        (initial_plot_state \<lparr>write_lock = False, episodic_returns = [], episodic_lengths = []\<rparr>)
      = (case plot_learning_curve 2048
                \<lparr>write_lock = False, episodic_returns = [1, 2, 3], episodic_lengths = [1000, 1000, 1000]\<rparr>
                (draw_env \<lparr>target_pos = 0, present_pos_last = 0, reward = 0, angle_low = - 1, angle_high = 1\<rparr>
                   (initial_plot_state \<lparr>write_lock = False, episodic_returns = [], episodic_lengths = []\<rparr>)) of
           Inl e \<Rightarrow> Inl e
         | Inr st2 \<Rightarrow> Inr (st2\<lparr>count := count st2 + 1\<rparr>))"
proof -
  let ?env = "\<lparr>target_pos = 0, present_pos_last = 0, reward = 0, angle_low = - 1, angle_high = 1\<rparr>"
  let ?locked = "\<lparr>write_lock = True, episodic_returns = [1, 2, 3], episodic_lengths = [1000, 1000, 1000]\<rparr>"
  let ?free = "\<lparr>write_lock = False, episodic_returns = [1, 2, 3], episodic_lengths = [1000, 1000, 1000]\<rparr>"
  let ?st = "initial_plot_state \<lparr>write_lock = False, episodic_returns = [], episodic_lengths = []\<rparr>"
  have o: "old_size ?st = 0" by (simp add: initial_plot_state_def)
  have l: "write_lock ?locked" by simp
  then have l': "write_lock ?locked \<or> length (episodic_returns ?locked) \<le> old_size ?st" ..
  have f: "\<not> write_lock ?free \<and> old_size ?st < length (episodic_returns ?free)"
    by (simp add: o)
  have a: "\<exists>st'. plot_iteration 2048 ?env ?locked ?st = Inr st'
         \<and> learning_curve_of st' = learning_curve_of ?st \<and> old_size st' = old_size ?st"
    by (rule redraw_only_when_due[of ?locked ?st 2048 ?env, THEN conjunct1, THEN mp, OF l'])
  have b: "plot_iteration 2048 ?env ?free ?st =
          (case plot_learning_curve 2048 ?free (draw_env ?env ?st) of
             Inl e \<Rightarrow> Inl e
           | Inr st2 \<Rightarrow> Inr (st2\<lparr>count := count st2 + 1\<rparr>))"
    by (rule redraw_only_when_due[of ?free ?st 2048 ?env, THEN conjunct2, THEN conjunct1, THEN mp, OF f])
  from f have c: "old_size ?st < length (episodic_returns ?free)" ..
  from a have a': "\<exists>st'. plot_iteration 2048 ?env ?locked ?st = Inr st'
         \<and> learning_curve_of st' = learning_curve_of ?st \<and> old_size st' = 0"
    unfolding o .
  from l a' c b show ?thesis by (intro conjI)
qed

section \<open>The empty list of averages\<close>

lemma rets_loop_all_filtered:
  "\<forall>i\<in>set js. \<exists>w. rets_in_window returns cum i = Inr w \<and> \<not> np_any w \<Longrightarrow>
   rets_loop returns cum js acc = Inr acc"
proof (induction js arbitrary: acc)
  case Nil
  then show ?case by simp
next
  case (Cons i js)
  from Cons.prems obtain w where w: "rets_in_window returns cum i = Inr w" "\<not> np_any w"
    by auto
  from Cons.prems have rest: "\<forall>i\<in>set js. \<exists>w. rets_in_window returns cum i = Inr w \<and> \<not> np_any w"
    by simp
  from w Cons.IH[OF rest, of acc] show ?case by simp
qed

lemma np_any_zeros: "\<forall>r\<in>set w. r = 0 \<Longrightarrow> \<not> np_any w"
  by (simp add: np_any_def list_ex_iff)

lemma plot_learning_curve_no_rets:
  assumes last: "np_last (np_cumsum (ep_lens_of bs shared)) = Inr last_cum"
    and guard: "x_tick \<le> last_cum"
    and loop: "rets_loop (episodic_returns shared) (np_cumsum (ep_lens_of bs shared))
                 [0..<length (steps_show_of last_cum)] [] = Inr []"
  shows "plot_learning_curve bs shared st = Inl Value_error"
  unfolding plot_learning_curve_def Let_def last using guard loop
  by (simp add: np_max_def)

text \<open>
  Claim C9. There are copies of the shared record that pass the test of the iteration and
  the test on the total number of steps (the last cumulative length is at least 1000) on
  which the routine raises: whenever every window of the sample axis holds no return
  different from zero (an empty window, or a window of returns that are all 0.0, since a
  window is kept by the truthiness of its values), the list \<open>rets\<close> stays empty and
  taking its maximum raises ValueError, which ends the plotting process.
\<close>

theorem all_windows_filtered_raises:
  assumes lock: "\<not> write_lock (shared_seen ob)"
    and new: "old_size st < length (episodic_returns (shared_seen ob))"
    and flag: "plot_running_value ob \<noteq> 0"
    and last: "np_last (np_cumsum (ep_lens_of bs (shared_seen ob))) = Inr last_cum"
    and guard: "x_tick \<le> last_cum"
    and zero: "\<forall>i<length (steps_show_of last_cum).
        \<exists>w. rets_in_window (episodic_returns (shared_seen ob))
               (np_cumsum (ep_lens_of bs (shared_seen ob))) i = Inr w \<and> (\<forall>r\<in>set w. r = 0)"
  shows "plot_iteration bs (env_seen ob) (shared_seen ob) st = Inl Value_error
       \<and> plot_loop tag bs extent st (ob # obs) = Raised Value_error"
proof -
  have "\<forall>i\<in>set [0..<length (steps_show_of last_cum)].
        \<exists>w. rets_in_window (episodic_returns (shared_seen ob))
               (np_cumsum (ep_lens_of bs (shared_seen ob))) i = Inr w \<and> \<not> np_any w"
    using zero np_any_zeros by fastforce
  then have loop: "rets_loop (episodic_returns (shared_seen ob)) (np_cumsum (ep_lens_of bs (shared_seen ob)))
                 [0..<length (steps_show_of last_cum)] [] = Inr []"
    by (rule rets_loop_all_filtered)
  have due: "redraw_due (shared_seen ob) st" using lock new by (simp add: redraw_due_def)
  have it: "plot_iteration bs (env_seen ob) (shared_seen ob) st = Inl Value_error"
    unfolding plot_iteration_due[OF due] plot_learning_curve_no_rets[OF last guard loop] by simp
  with flag show ?thesis by simp
qed

theorem all_windows_filtered_raises_witness:
  "plot_iteration 2048 \<lparr>target_pos = 0, present_pos_last = 0, reward = 0, angle_low = - 1, angle_high = 1\<rparr>
     \<lparr>write_lock = False, episodic_returns = [0, 0], episodic_lengths = [1000, 1000]\<rparr>
     (initial_plot_state \<lparr>write_lock = False, episodic_returns = [], episodic_lengths = []\<rparr>)
     = Inl Value_error
   \<and> plot_dxl_reacher ''t'' 2048 \<lparr>write_lock = False, episodic_returns = [], episodic_lengths = []\<rparr>
       \<lparr>bb_x0 = 0, bb_y0 = 0, bb_x1 = 1, bb_y1 = 1\<rparr>
       [\<lparr>plot_running_value = 1,
         env_seen = \<lparr>target_pos = 0, present_pos_last = 0, reward = 0, angle_low = - 1, angle_high = 1\<rparr>,
         shared_seen = \<lparr>write_lock = False, episodic_returns = [0, 0], episodic_lengths = [1000, 1000]\<rparr>\<rparr>,
        \<lparr>plot_running_value = 0,
         env_seen = \<lparr>target_pos = 0, present_pos_last = 0, reward = 0, angle_low = - 1, angle_high = 1\<rparr>,
         shared_seen = \<lparr>write_lock = False, episodic_returns = [0, 0], episodic_lengths = [1000, 1000]\<rparr>\<rparr>]
     = Raised Value_error
   \<and> np_last (np_cumsum (ep_lens_of 2048
        \<lparr>write_lock = False, episodic_returns = [0, 0], episodic_lengths = [1000, 1000]\<rparr>)) = Inr 2000
   \<and> rets_in_window [0, 0] [1000, 2000] 0 = Inr []
   \<and> rets_in_window [0, 0] [1000, 2000] 1 = Inr [0]"
proof -
  let ?env = "\<lparr>target_pos = 0, present_pos_last = 0, reward = 0, angle_low = - 1, angle_high = 1\<rparr>"
  let ?sh = "\<lparr>write_lock = False, episodic_returns = [0, 0], episodic_lengths = [1000, 1000]\<rparr>"
  let ?ob = "\<lparr>plot_running_value = 1, env_seen = ?env, shared_seen = ?sh\<rparr>"
  let ?halt = "\<lparr>plot_running_value = 0, env_seen = ?env, shared_seen = ?sh\<rparr>"
  let ?st = "initial_plot_state \<lparr>write_lock = False, episodic_returns = [], episodic_lengths = []\<rparr>"
  have cum: "np_cumsum (ep_lens_of 2048 ?sh) = [1000, 2000]"
    by (simp add: ep_lens_of_def np_cumsum_def)
  have lock: "\<not> write_lock (shared_seen ?ob)" by simp
  have new: "old_size ?st < length (episodic_returns (shared_seen ?ob))"
    by (simp add: initial_plot_state_def)
  have flag: "plot_running_value ?ob \<noteq> 0" by simp
  have last: "np_last (np_cumsum (ep_lens_of 2048 (shared_seen ?ob))) = Inr 2000"
    by (simp add: cum np_last_def)
  have guard: "x_tick \<le> 2000" by (simp add: x_tick_def)
  have w0: "rets_in_window [0, 0] [1000, 2000] 0 = Inr []"
    and w1: "rets_in_window [0, 0] [1000, 2000] 1 = Inr [0]"
    by (simp_all add: rets_in_window_def window_mask_def bool_index_def x_tick_def window_size_steps_def)
  have n: "length (steps_show_of 2000) = 2" by (simp add: length_steps_show_of)
  have zero: "\<forall>i<length (steps_show_of 2000).
        \<exists>w. rets_in_window (episodic_returns (shared_seen ?ob))
               (np_cumsum (ep_lens_of 2048 (shared_seen ?ob))) i = Inr w \<and> (\<forall>r\<in>set w. r = 0)"
  proof (intro allI impI)
    fix i assume "i < length (steps_show_of 2000)"
    then have "i = 0 \<or> i = 1" unfolding n by auto
    then show "\<exists>w. rets_in_window (episodic_returns (shared_seen ?ob))
               (np_cumsum (ep_lens_of 2048 (shared_seen ?ob))) i = Inr w \<and> (\<forall>r\<in>set w. r = 0)"
      using w0 w1 cum by auto
  qed
  note t = all_windows_filtered_raises[OF lock new flag last guard zero, of "''t''"
      "\<lparr>bb_x0 = 0, bb_y0 = 0, bb_x1 = 1, bb_y1 = 1\<rparr>" "[?halt]"]
  from t have a: "plot_iteration 2048 ?env ?sh ?st = Inl Value_error" by simp
  from t have b: "plot_dxl_reacher ''t'' 2048 \<lparr>write_lock = False, episodic_returns = [], episodic_lengths = []\<rparr>
       \<lparr>bb_x0 = 0, bb_y0 = 0, bb_x1 = 1, bb_y1 = 1\<rparr> [?ob, ?halt] = Raised Value_error"
    unfolding plot_dxl_reacher_def by (rule conjunct2)
  from last have c: "np_last (np_cumsum (ep_lens_of 2048 ?sh)) = Inr 2000" by simp
  from a b c w0 w1 show ?thesis by (intro conjI)
qed

section \<open>The x positions of the averages\<close>

lemma rets_loop_same_length:
  "rets_loop returns cum (i # js) acc = Inr r \<Longrightarrow> length cum = length returns"
  by (auto simp: rets_in_window_def bool_index_def window_mask_def split: sum.splits if_splits)

lemma strict_sorted_nth_gap:
  fixes xs :: "nat list"
  assumes "sorted_wrt (<) xs"
  shows "k \<le> j \<Longrightarrow> j < length xs \<Longrightarrow> xs ! k + (j - k) \<le> xs ! j"
proof (induction j)
  case 0
  then show ?case by simp
next
  case (Suc j)
  show ?case
  proof (cases "k = Suc j")
    case True
    then show ?thesis by simp
  next
    case False
    with Suc.prems have kj: "k \<le> j" and jl: "j < length xs" by simp_all
    from Suc.IH[OF kj jl] have "xs ! k + (j - k) \<le> xs ! j" .
    moreover have "xs ! j < xs ! Suc j"
      using assms Suc.prems(2) by (simp add: sorted_wrt_nth_less)
    ultimately show ?thesis using kj by simp
  qed
qed

lemma kept_samples_sorted: "sorted_wrt (<) (kept_samples returns cum n)"
  by (simp add: kept_samples_def sorted_wrt_filter)

lemma kept_samples_position:
  assumes j: "j < length (kept_samples returns cum n)"
  shows "j \<le> kept_samples returns cum n ! j"
    and "\<exists>i<kept_samples returns cum n ! j. i \<notin> set (kept_samples returns cum n) \<Longrightarrow>
         j < kept_samples returns cum n ! j"
proof -
  let ?ks = "kept_samples returns cum n"
  have srt: "sorted_wrt (<) ?ks" by (rule kept_samples_sorted)
  from strict_sorted_nth_gap[OF srt, of 0 j] j show le: "j \<le> ?ks ! j" by simp
  assume "\<exists>i<?ks ! j. i \<notin> set ?ks"
  then obtain i where i: "i < ?ks ! j" "i \<notin> set ?ks" by blast
  show "j < ?ks ! j"
  proof (rule ccontr)
    assume "\<not> j < ?ks ! j"
    with le have eq: "?ks ! j = j" by simp
    with i have ij: "i < j" by simp
    then have il: "i < length ?ks" using j by simp
    from strict_sorted_nth_gap[OF srt, of i j] ij j have "?ks ! i + (j - i) \<le> j" by (simp add: eq)
    moreover from strict_sorted_nth_gap[OF srt, of 0 i] il have "i \<le> ?ks ! i" by simp
    ultimately have "?ks ! i = i" using ij by simp
    with il have "i \<in> set ?ks" by (metis nth_mem)
    with i show False by simp
  qed
qed

lemma np_arange_from_one:
  "map (\<lambda>k. k * x_tick) (np_arange 1 (int n + 1) 1) = map (\<lambda>k. 1000 * int k) [1..<Suc n]"
proof -
  have "[1..<Suc n] = map Suc [0..<n]" by (simp add: map_Suc_upt)
  then show ?thesis by (simp add: np_arange_unit x_tick_def o_def algebra_simps)
qed

lemma plot_learning_curve_redrawn:
  assumes ok: "plot_learning_curve bs shared st = Inr st'"
    and last: "np_last (np_cumsum (ep_lens_of bs shared)) = Inr last_cum"
    and guard: "x_tick \<le> last_cum"
  shows "rets_loop (episodic_returns shared) (np_cumsum (ep_lens_of bs shared))
           [0..<length (steps_show_of last_cum)] [] = Inr (hl11_ydata st')
       \<and> hl11_xdata st' = map (\<lambda>k. 1000 * int k) [1..<Suc (length (hl11_ydata st'))]"
  using ok guard unfolding plot_learning_curve_def Let_def last
  by (auto simp: np_arange_from_one split: sum.splits)

text \<open>
  Claim C10. On every redraw the x data of the learning-curve line are the consecutive
  multiples \<open>1000, 2000, ..., length rets * 1000\<close> of the stride, whichever sample points
  contributed an average: the average number \<open>j\<close> of the line is the mean of the window
  of the sample point with index \<open>kept_samples ! j\<close>, and it is drawn at an x position
  that is at most that sample point, and strictly smaller than it as soon as a sample
  point before it was skipped.
\<close>

theorem curve_x_positions:
  assumes ok: "plot_learning_curve bs shared st = Inr st'"
    and last: "np_last (np_cumsum (ep_lens_of bs shared)) = Inr last_cum"
    and guard: "x_tick \<le> last_cum"
  shows "hl11_xdata st' = map (\<lambda>k. 1000 * int k) [1..<Suc (length (hl11_ydata st'))]
       \<and> hl11_ydata st'
           = map (\<lambda>i. np_mean (window_of (episodic_returns shared) (np_cumsum (ep_lens_of bs shared))
                                  (steps_show_of last_cum ! i)))
               (kept_samples (episodic_returns shared) (np_cumsum (ep_lens_of bs shared))
                  (length (steps_show_of last_cum)))
       \<and> (\<forall>j<length (hl11_ydata st').
             hl11_xdata st' ! j
               \<le> steps_show_of last_cum
                    ! (kept_samples (episodic_returns shared) (np_cumsum (ep_lens_of bs shared))
                         (length (steps_show_of last_cum)) ! j)
           \<and> ((\<exists>i<kept_samples (episodic_returns shared) (np_cumsum (ep_lens_of bs shared))
                       (length (steps_show_of last_cum)) ! j.
                   i \<notin> set (kept_samples (episodic_returns shared) (np_cumsum (ep_lens_of bs shared))
                               (length (steps_show_of last_cum))))
                \<longrightarrow> hl11_xdata st' ! j
                      < steps_show_of last_cum
                          ! (kept_samples (episodic_returns shared) (np_cumsum (ep_lens_of bs shared))
                               (length (steps_show_of last_cum)) ! j)))"
proof -
  let ?R = "episodic_returns shared" and ?C = "np_cumsum (ep_lens_of bs shared)"
  let ?n = "length (steps_show_of last_cum)"
  let ?ks = "kept_samples ?R ?C ?n"
  from plot_learning_curve_redrawn[OF ok last guard]
  have loop: "rets_loop ?R ?C [0..<?n] [] = Inr (hl11_ydata st')"
    and xs: "hl11_xdata st' = map (\<lambda>k. 1000 * int k) [1..<Suc (length (hl11_ydata st'))]"
    by simp_all
  have npos: "0 < ?n" using guard by (simp add: length_steps_show_of x_tick_def)
  then have "[0..<?n] = 0 # [1..<?n]" by (simp add: upt_conv_Cons)
  with loop have len: "length ?C = length ?R" by (metis rets_loop_same_length)
  from loop rets_loop_windows[OF len, of ?n]
  have ys0: "hl11_ydata st' = map (\<lambda>i. np_mean (window_of ?R ?C (x_tick * (int i + 1)))) ?ks"
    by simp
  have ys: "hl11_ydata st' = map (\<lambda>i. np_mean (window_of ?R ?C (steps_show_of last_cum ! i))) ?ks"
    unfolding ys0
    by (rule map_cong[OF refl]) (simp add: steps_show_of_nth kept_samples_bound)
  have lk: "length (hl11_ydata st') = length ?ks" unfolding ys0 by simp
  have pos: "hl11_xdata st' ! j \<le> steps_show_of last_cum ! (?ks ! j)
           \<and> ((\<exists>i<?ks ! j. i \<notin> set ?ks) \<longrightarrow> hl11_xdata st' ! j < steps_show_of last_cum ! (?ks ! j))"
    if j: "j < length (hl11_ydata st')" for j
  proof -
    from j lk have jk: "j < length ?ks" by simp
    then have "?ks ! j \<in> set ?ks" by (rule nth_mem)
    then have kn: "?ks ! j < ?n" by (rule kept_samples_bound)
    have x: "hl11_xdata st' ! j = 1000 * (int j + 1)"
      using j unfolding xs by (simp add: nth_map_upt del: upt_Suc)
    have s: "steps_show_of last_cum ! (?ks ! j) = 1000 * (int (?ks ! j) + 1)"
      using steps_show_of_nth[OF kn] by (simp add: x_tick_def)
    from kept_samples_position(1)[OF jk] have a: "hl11_xdata st' ! j \<le> steps_show_of last_cum ! (?ks ! j)"
      unfolding x s by simp
    have b: "hl11_xdata st' ! j < steps_show_of last_cum ! (?ks ! j)" if "\<exists>i<?ks ! j. i \<notin> set ?ks"
      using kept_samples_position(2)[OF jk that] unfolding x s by simp
    from a b show ?thesis by blast
  qed
  from xs ys pos show ?thesis by blast
qed

lemma three_episodes_redraw:
  "plot_learning_curve bs
     \<lparr>write_lock = False, episodic_returns = [1, 2, 3], episodic_lengths = [1000, 1000, 1000]\<rparr> st
   = Inr (st\<lparr>old_size := 3, hl11_xdata := [1000, 2000], ax2_xlim := (1000, 2000),
              hl11_ydata := [1, 3 / 2], ax2_ylim := (39 / 40, 61 / 40)\<rparr>)"
proof -
  have cum: "np_cumsum (ep_lens_of bs
      \<lparr>write_lock = False, episodic_returns = [1, 2, 3], episodic_lengths = [1000, 1000, 1000]\<rparr>)
     = [1000, 2000, 3000]"
    by (simp add: ep_lens_of_def np_cumsum_def)
  have len: "length [1000, 2000, 3000 :: int] = length [1, 2, 3 :: real]" by simp
  have n: "length (steps_show_of 3000) = 3" by (simp add: length_steps_show_of)
  have w: "window_of [1, 2, 3] [1000, 2000, 3000] 1000 = []"
      "window_of [1, 2, 3] [1000, 2000, 3000] 2000 = [1]"
      "window_of [1, 2, 3] [1000, 2000, 3000] 3000 = [1, 2]"
    by (simp_all add: window_of_def window_size_steps_def)
  have kept: "kept_samples [1, 2, 3] [1000, 2000, 3000] 3 = [1, 2]"
    by (simp add: kept_samples_def upt_rec x_tick_def w np_any_def)
  have loop: "rets_loop [1, 2, 3] [1000, 2000, 3000] [0..<length (steps_show_of 3000)] [] = Inr [1, 3 / 2]"
    unfolding n rets_loop_windows[OF len] kept
    by (simp add: x_tick_def w np_mean_def)
  have xs: "map (\<lambda>k. k * x_tick) (np_arange 1 (int (length [1, 3 / 2 :: real]) + 1) 1) = [1000, 2000]"
    by (simp add: np_arange_def x_tick_def upt_rec)
  show ?thesis
    unfolding plot_learning_curve_def Let_def cum
    using loop xs by (simp add: np_last_def np_max_def np_min_def x_tick_def)
qed

theorem curve_x_positions_witness:
  "\<exists>st'. plot_learning_curve 2048
       \<lparr>write_lock = False, episodic_returns = [1, 2, 3], episodic_lengths = [1000, 1000, 1000]\<rparr>
       (initial_plot_state \<lparr>write_lock = False, episodic_returns = [], episodic_lengths = []\<rparr>) = Inr st'
     \<and> hl11_xdata st' = [1000, 2000]
     \<and> hl11_ydata st' = [1, 3 / 2]
     \<and> kept_samples [1, 2, 3] [1000, 2000, 3000] 3 = [1, 2]
     \<and> steps_show_of 3000 = [1000, 2000, 3000]
     \<and> hl11_xdata st' ! 0 < steps_show_of 3000 ! 1
     \<and> hl11_xdata st' ! 1 < steps_show_of 3000 ! 2"
proof -
  let ?sh = "\<lparr>write_lock = False, episodic_returns = [1, 2, 3], episodic_lengths = [1000, 1000, 1000]\<rparr>"
  let ?st = "initial_plot_state \<lparr>write_lock = False, episodic_returns = [], episodic_lengths = []\<rparr>"
  define st' where "st' = ?st\<lparr>old_size := 3, hl11_xdata := [1000, 2000], ax2_xlim := (1000, 2000),
              hl11_ydata := [1, 3 / 2], ax2_ylim := (39 / 40, 61 / 40)\<rparr>"
  have ok: "plot_learning_curve 2048 ?sh ?st = Inr st'"
    unfolding st'_def by (rule three_episodes_redraw)
  have cum: "np_cumsum (ep_lens_of 2048 ?sh) = [1000, 2000, 3000]"
    by (simp add: ep_lens_of_def np_cumsum_def)
  have last: "np_last (np_cumsum (ep_lens_of 2048 ?sh)) = Inr 3000"
    by (simp add: cum np_last_def)
  have guard: "x_tick \<le> 3000" by (simp add: x_tick_def)
  have ys: "hl11_ydata st' = [1, 3 / 2]" and xs': "hl11_xdata st' = [1000, 2000]"
    by (simp_all add: st'_def)
  have n: "length (steps_show_of 3000) = 3" by (simp add: length_steps_show_of)
  have steps: "steps_show_of 3000 = [1000, 2000, 3000]" by code_simp
  have w: "window_of [1, 2, 3] [1000, 2000, 3000] 1000 = []"
      "window_of [1, 2, 3] [1000, 2000, 3000] 2000 = [1]"
      "window_of [1, 2, 3] [1000, 2000, 3000] 3000 = [1, 2]"
    by (simp_all add: window_of_def window_size_steps_def)
  have kept: "kept_samples [1, 2, 3] [1000, 2000, 3000] 3 = [1, 2]"
    by (simp add: kept_samples_def upt_rec x_tick_def w np_any_def)
  let ?ks = "kept_samples (episodic_returns ?sh) (np_cumsum (ep_lens_of 2048 ?sh))
              (length (steps_show_of 3000))"
  have ks: "?ks = [1, 2]" by (simp add: cum n kept)
  note t = curve_x_positions[OF ok last guard]
  from t have "\<forall>j<length (hl11_ydata st').
       hl11_xdata st' ! j \<le> steps_show_of 3000 ! (?ks ! j)
       \<and> ((\<exists>i<?ks ! j. i \<notin> set ?ks) \<longrightarrow> hl11_xdata st' ! j < steps_show_of 3000 ! (?ks ! j))"
    by (elim conjE)
  then have pos: "\<forall>j<length [1, 3 / 2 :: real].
       hl11_xdata st' ! j \<le> steps_show_of 3000 ! ([1, 2] ! j)
       \<and> ((\<exists>i<[1, 2] ! j. i \<notin> set [1, 2 :: nat]) \<longrightarrow> hl11_xdata st' ! j < steps_show_of 3000 ! ([1, 2] ! j))"
    unfolding ks ys .
  have skipped0: "\<exists>i<[1, 2 :: nat] ! 0. i \<notin> set [1, 2 :: nat]" by (rule exI[of _ 0]) simp
  have skipped1: "\<exists>i<[1, 2 :: nat] ! 1. i \<notin> set [1, 2 :: nat]" by (rule exI[of _ 0]) simp
  from pos skipped0 have p0: "hl11_xdata st' ! 0 < steps_show_of 3000 ! 1" by force
  from pos skipped1 have p1: "hl11_xdata st' ! 1 < steps_show_of 3000 ! 2" by force
  from ok xs' ys kept steps p0 p1 show ?thesis by blast
qed

section \<open>Leaving the loop, and the shutdown of the trainer\<close>

lemma plot_loop_append:
  "plot_loop tag bs ext st pre = Still_running st' \<Longrightarrow>
   plot_loop tag bs ext st (pre @ rest) = plot_loop tag bs ext st' rest"
proof (induction pre arbitrary: st)
  case Nil
  then show ?case by simp
next
  case (Cons ob pre)
  from Cons.prems have flag: "plot_running_value ob \<noteq> 0"
    by (auto split: if_splits)
  from Cons.prems flag obtain st1 where
    it: "plot_iteration bs (env_seen ob) (shared_seen ob) st = Inr st1"
    and run: "plot_loop tag bs ext st1 pre = Still_running st'"
    by (auto split: sum.splits)
  from Cons.IH[OF run] flag it show ?case by simp
qed

lemma plot_loop_exited_files:
  "plot_loop tag bs ext st obs = Exited st' files \<Longrightarrow> files = [savefig tag ext]"
proof (induction obs arbitrary: st)
  case Nil
  then show ?case by simp
next
  case (Cons ob obs)
  show ?case
  proof (cases "plot_running_value ob = 0")
    case True
    with Cons.prems show ?thesis by simp
  next
    case False
    with Cons.prems obtain st1 where
      "plot_loop tag bs ext st1 obs = Exited st' files"
      by (auto split: sum.splits)
    then show ?thesis by (rule Cons.IH)
  qed
qed

lemma expanded_width: "bb_x1 (expanded sw sh b) - bb_x0 (expanded sw sh b) = sw * (bb_x1 b - bb_x0 b)"
  by (simp add: expanded_def Let_def algebra_simps)

lemma expanded_height: "bb_y1 (expanded sw sh b) - bb_y0 (expanded sw sh b) = sh * (bb_y1 b - bb_y0 b)"
  by (simp add: expanded_def Let_def algebra_simps)

lemma expanded_centre:
  "bb_x0 (expanded sw sh b) + bb_x1 (expanded sw sh b) = bb_x0 b + bb_x1 b"
  "bb_y0 (expanded sw sh b) + bb_y1 (expanded sw sh b) = bb_y0 b + bb_y1 b"
  by (simp_all add: expanded_def Let_def)

lemma main_events:
  "events (main port idn baud tag) =
     [Env_create port idn baud, Env_start, Plotter_start tag 2048, Learn 50000,
      Set_plot_running 0, Sleep 2, Plotter_join, Env_close]"
  by (simp add: main_def Let_def emit_def set_plot_running_def)

text \<open>
  Claim C7. When a test of the loop condition reads a falsy flag, in a run in which every
  earlier test read a truthy flag and no iteration raised, the loop is left and one image
  is saved: its name is the tag followed by \<open>.png\<close>, and its box is the window extent
  of the learning-curve subplot scaled to 1.1 times its width and to 1.1 times its height
  about its centre. No run of the routine that leaves the loop saves anything else. The
  tag is the one \<open>main\<close> hands to the plotting process: the string of the clock read
  when \<open>main\<close> starts.
\<close>

theorem exit_saves_one_image:
  assumes run: "plot_dxl_reacher tag bs shared ext pre = Still_running st'"
    and flag: "plot_running_value ob = 0"
  shows "plot_dxl_reacher tag bs shared ext (pre @ ob # post)
           = Exited st' [\<lparr>fname = tag @ ''.png'', bbox_inches = expanded (11 / 10) (11 / 10) ext\<rparr>]
       \<and> bb_x1 (expanded (11 / 10) (11 / 10) ext) - bb_x0 (expanded (11 / 10) (11 / 10) ext)
           = 11 / 10 * (bb_x1 ext - bb_x0 ext)
       \<and> bb_y1 (expanded (11 / 10) (11 / 10) ext) - bb_y0 (expanded (11 / 10) (11 / 10) ext)
           = 11 / 10 * (bb_y1 ext - bb_y0 ext)
       \<and> bb_x0 (expanded (11 / 10) (11 / 10) ext) + bb_x1 (expanded (11 / 10) (11 / 10) ext)
           = bb_x0 ext + bb_x1 ext
       \<and> bb_y0 (expanded (11 / 10) (11 / 10) ext) + bb_y1 (expanded (11 / 10) (11 / 10) ext)
           = bb_y0 ext + bb_y1 ext
       \<and> (\<forall>obs st'' files. plot_dxl_reacher tag bs shared ext obs = Exited st'' files
             \<longrightarrow> files = [\<lparr>fname = tag @ ''.png'', bbox_inches = expanded (11 / 10) (11 / 10) ext\<rparr>])
       \<and> Plotter_start tag 2048 \<in> set (events (main port idn baud tag))"
proof (intro conjI allI impI)
  from run have "plot_loop tag bs ext (initial_plot_state shared) pre = Still_running st'"
    by (simp add: plot_dxl_reacher_def)
  from plot_loop_append[OF this, of "ob # post"] flag
  show "plot_dxl_reacher tag bs shared ext (pre @ ob # post)
           = Exited st' [\<lparr>fname = tag @ ''.png'', bbox_inches = expanded (11 / 10) (11 / 10) ext\<rparr>]"
    by (simp add: plot_dxl_reacher_def savefig_def)
next
  fix obs st'' files
  assume "plot_dxl_reacher tag bs shared ext obs = Exited st'' files"
  then have "files = [savefig tag ext]"
    unfolding plot_dxl_reacher_def by (rule plot_loop_exited_files)
  then show "files = [\<lparr>fname = tag @ ''.png'', bbox_inches = expanded (11 / 10) (11 / 10) ext\<rparr>]"
    by (simp add: savefig_def)
next
  show "Plotter_start tag 2048 \<in> set (events (main port idn baud tag))"
    by (simp add: main_events)
qed (rule expanded_width expanded_height expanded_centre)+

text \<open>
  Claim C5. The shutdown sequence of the trainer: after the learner returns, the flag is
  set to 0, then the trainer sleeps 2 seconds, then it joins the plotting process, then it
  closes the environment. The join is not attempted before the sleep.
\<close>

theorem shutdown_order:
  "events (main port idn baud tag) =
     [Env_create port idn baud, Env_start, Plotter_start tag 2048, Learn 50000,
      Set_plot_running 0, Sleep 2, Plotter_join, Env_close]
   \<and> dropWhile (\<lambda>e. e \<noteq> Set_plot_running 0) (events (main port idn baud tag))
       = [Set_plot_running 0, Sleep 2, Plotter_join, Env_close]
   \<and> Plotter_join \<notin> set (takeWhile (\<lambda>e. e \<noteq> Sleep 2) (events (main port idn baud tag)))
   \<and> plot_running (main port idn baud tag) = 0"
proof -
  have fl: "plot_running (main port idn baud tag) = 0"
    by (simp add: main_def Let_def emit_def set_plot_running_def)
  show ?thesis unfolding main_events using fl by simp
qed

theorem exit_saves_one_image_witness:
  "\<exists>st'. plot_dxl_reacher ''1541289600.0'' 2048
           \<lparr>write_lock = False, episodic_returns = [], episodic_lengths = []\<rparr>
           \<lparr>bb_x0 = 10, bb_y0 = 1, bb_x1 = 20, bb_y1 = 6\<rparr>
           [\<lparr>plot_running_value = 1,
             env_seen = \<lparr>target_pos = 0, present_pos_last = 0, reward = 0, angle_low = - 1, angle_high = 1\<rparr>,
             shared_seen = \<lparr>write_lock = False, episodic_returns = [], episodic_lengths = []\<rparr>\<rparr>]
         = Still_running st'
     \<and> plot_running_value
          \<lparr>plot_running_value = 0,
           env_seen = \<lparr>target_pos = 0, present_pos_last = 0, reward = 0, angle_low = - 1, angle_high = 1\<rparr>,
           shared_seen = \<lparr>write_lock = False, episodic_returns = [], episodic_lengths = []\<rparr>\<rparr> = 0
     \<and> plot_dxl_reacher ''1541289600.0'' 2048
           \<lparr>write_lock = False, episodic_returns = [], episodic_lengths = []\<rparr>
           \<lparr>bb_x0 = 10, bb_y0 = 1, bb_x1 = 20, bb_y1 = 6\<rparr>
           [\<lparr>plot_running_value = 1,
             env_seen = \<lparr>target_pos = 0, present_pos_last = 0, reward = 0, angle_low = - 1, angle_high = 1\<rparr>,
             shared_seen = \<lparr>write_lock = False, episodic_returns = [], episodic_lengths = []\<rparr>\<rparr>,
            \<lparr>plot_running_value = 0,
             env_seen = \<lparr>target_pos = 0, present_pos_last = 0, reward = 0, angle_low = - 1, angle_high = 1\<rparr>,
             shared_seen = \<lparr>write_lock = False, episodic_returns = [], episodic_lengths = []\<rparr>\<rparr>]
         = Exited st' [\<lparr>fname = ''1541289600.0.png'',
                        bbox_inches = \<lparr>bb_x0 = 19 / 2, bb_y0 = 3 / 4, bb_x1 = 41 / 2, bb_y1 = 25 / 4\<rparr>\<rparr>]"
proof -
  let ?env = "\<lparr>target_pos = 0, present_pos_last = 0, reward = 0, angle_low = - 1, angle_high = 1\<rparr>"
  let ?sh = "\<lparr>write_lock = False, episodic_returns = [], episodic_lengths = []\<rparr>"
  let ?ext = "\<lparr>bb_x0 = 10, bb_y0 = 1, bb_x1 = 20, bb_y1 = 6\<rparr>"
  let ?go = "\<lparr>plot_running_value = 1, env_seen = ?env, shared_seen = ?sh\<rparr>"
  let ?halt = "\<lparr>plot_running_value = 0, env_seen = ?env, shared_seen = ?sh\<rparr>"
  define st1 where "st1 = (draw_env ?env (initial_plot_state ?sh))\<lparr>count := count (initial_plot_state ?sh) + 1\<rparr>"
  have nd: "\<not> redraw_due ?sh (initial_plot_state ?sh)"
    by (simp add: redraw_due_def initial_plot_state_def)
  have run: "plot_dxl_reacher ''1541289600.0'' 2048 ?sh ?ext [?go] = Still_running st1"
    by (simp add: plot_dxl_reacher_def plot_iteration_not_due[OF nd] st1_def)
  have flag: "plot_running_value ?halt = 0" by simp
  have box: "expanded (11 / 10) (11 / 10) ?ext = \<lparr>bb_x0 = 19 / 2, bb_y0 = 3 / 4, bb_x1 = 41 / 2, bb_y1 = 25 / 4\<rparr>"
    by (simp add: expanded_def Let_def)
  from exit_saves_one_image[OF run flag, of "[]"]
  have "plot_dxl_reacher ''1541289600.0'' 2048 ?sh ?ext ([?go] @ [?halt])
           = Exited st1 [\<lparr>fname = ''1541289600.0'' @ ''.png'', bbox_inches = expanded (11 / 10) (11 / 10) ?ext\<rparr>]"
    by (rule conjunct1)
  then have ex: "plot_dxl_reacher ''1541289600.0'' 2048 ?sh ?ext [?go, ?halt]
           = Exited st1 [\<lparr>fname = ''1541289600.0.png'',
                         bbox_inches = \<lparr>bb_x0 = 19 / 2, bb_y0 = 3 / 4, bb_x1 = 41 / 2, bb_y1 = 25 / 4\<rparr>\<rparr>]"
    unfolding box by simp
  from run flag ex show ?thesis by blast
qed

section \<open>The command line of the script\<close>










end
